theory Spec2Isabelle
  imports Main "HOL-Library.Word" "HOL-Library.Signed_Division"
begin

unbundle bit_operations_syntax

section \<open>Machine types and results\<close>

text \<open>
  The program is Go on a 64-bit platform: \<open>int\<close> and \<open>uint\<close> are 64 bits wide, a
  \<open>byte\<close> is 8 bits. A Go \<open>int\<close> is a 64-bit word read through \<open>sint\<close>, a \<open>uint\<close> is
  read through \<open>uint\<close>. A string is a list of bytes. Where a Go integer cannot
  overflow (a number parsed from text is cut off at \<open>big\<close>, a digit count, a prefix
  length) it is a HOL \<open>int\<close> or \<open>nat\<close>.
\<close>

type_synonym byte = "8 word"
type_synonym goint = "64 word"
type_synonym uint = "64 word"

text \<open>
  The error values the program returns. The source builds them with \<open>fmt.Errorf\<close>; each
  constructor stands for one message:
  \<^item> \<open>ParseError s\<close>: the \<open>net.ParseError\<close> of \<open>net.ParseCIDR\<close> on the text \<open>s\<close>
    ("invalid CIDR address: s");
  \<^item> \<open>LegacyNetworkUnsupported\<close>: "Cloud TPUs cannot be used with legacy networks, please
    create a new GCP project";
  \<^item> \<open>RangeExhausted\<close>: "existing routing entries appear to entirely cover the IP-range
    ctpu uses";
  \<^item> \<open>ConstructedCIDRParse e\<close>: "error parsing constructed CIDR: e";
  \<^item> \<open>ConstructedCIDRSplit s\<close>: "error parsing cidr block s";
  \<^item> \<open>UnknownTPUDeviceSize s\<close>: "unknown TPU device size s".
\<close>

datatype error =
    ParseError string
  | LegacyNetworkUnsupported
  | RangeExhausted
  | ConstructedCIDRParse error
  | ConstructedCIDRSplit string
  | UnknownTPUDeviceSize string

text \<open>A run-time panic is not a returned error: the call does not return at all.\<close>

datatype panic = DivideByZero | InvalidArgumentToIntn

datatype 'a result = Ok 'a | Panic panic

text \<open>
  How a statement inside a loop body ends: it falls through to the next statement, it
  executes \<open>continue\<close> (consumed by the innermost enclosing loop), or it leaves the
  function (a \<open>return\<close>, or a panic).
\<close>

datatype 'a completion = Normal | Continue | Leave "'a result"

section \<open>Strings\<close>

text \<open>\<open>strings.HasSuffix(s, suffix)\<close>.\<close>

definition HasSuffix :: "string \<Rightarrow> string \<Rightarrow> bool" where
  "HasSuffix s suffix \<longleftrightarrow>
     length s \<ge> length suffix \<and> drop (length s - length suffix) s = suffix"

text \<open>
  \<open>strings.Split(s, sep)\<close> for a separator of one byte (the program calls it with "/"):
  the pieces of \<open>s\<close> between the occurrences of \<open>sep\<close>, one more than there are
  occurrences.
\<close>

fun Split :: "string \<Rightarrow> char \<Rightarrow> string list" where
  "Split [] sep = [[]]"
| "Split (c # s) sep =
     (if c = sep then [] # Split s sep
      else (case Split s sep of [] \<Rightarrow> [[c]] | p # ps \<Rightarrow> (c # p) # ps))"

text \<open>
  The ten decimal digits: \<open>digitChar d\<close> is the byte \<open>'0' + d\<close> for \<open>d < 10\<close>, and
  \<open>digitVal c\<close> is \<open>c - '0'\<close> when \<open>'0' \<le> c \<le> '9'\<close> (\<open>None\<close> for any other byte).
\<close>

definition digitChar :: "int \<Rightarrow> char" where
  "digitChar d = ''0123456789'' ! nat d"

definition digitVal :: "char \<Rightarrow> int option" where
  "digitVal c = map_of (zip ''0123456789'' [0, 1, 2, 3, 4, 5, 6, 7, 8, 9]) c"

text \<open>
  \<open>uitoa\<close> of package net: the decimal text of an unsigned integer. The digits are
  produced from the least significant one into the end of a buffer.
\<close>

function uitoa_loop :: "int \<Rightarrow> string \<Rightarrow> string" where
  "uitoa_loop val buf =
     (if val \<ge> 10 then uitoa_loop (val div 10) (digitChar (val mod 10) # buf)
      else digitChar val # buf)"
  by pat_completeness auto
termination
  by (relation "measure (\<lambda>(val, buf). nat val)") auto

definition uitoa :: "int \<Rightarrow> string" where
  "uitoa val = (if val = 0 then ''0'' else uitoa_loop val [])"

text \<open>
  \<open>fmt.Sprintf("%s/%d", s, n)\<close> with \<open>n\<close> a \<open>uint\<close>: the verb \<open>%d\<close> prints the decimal
  digits of \<open>n\<close>.
\<close>

definition Sprintf_s_slash_d :: "string \<Rightarrow> uint \<Rightarrow> string" where
  "Sprintf_s_slash_d s n = s @ ''/'' @ uitoa (uint n)"

section \<open>Package net\<close>

text \<open>
  The functions of Go's package net that the program calls, as the standard library
  of the Go releases contemporary with the source defines them (\<open>ParseCIDR\<close> through
  \<open>parseIPv4\<close>, \<open>parseIPv6\<close> and \<open>dtoi\<close>). An \<open>IP\<close> and an \<open>IPMask\<close> are byte slices
  of length 4 or 16; a function that returns \<open>nil\<close> for failure returns \<open>None\<close> here.
\<close>

type_synonym IP = "byte list"
type_synonym IPMask = "byte list"

record IPNet =
  IP :: IP
  Mask :: IPMask

definition IPv4len :: nat where "IPv4len = 4"
definition IPv6len :: nat where "IPv6len = 16"

definition v4InV6Prefix :: "byte list" where
  "v4InV6Prefix = [0, 0, 0, 0, 0, 0, 0, 0, 0, 0, 0xff, 0xff]"

definition IPv4 :: "byte \<Rightarrow> byte \<Rightarrow> byte \<Rightarrow> byte \<Rightarrow> IP" where
  "IPv4 a b c d = v4InV6Prefix @ [a, b, c, d]"

definition To4 :: "IP \<Rightarrow> IP option" where
  "To4 ip =
     (if length ip = IPv4len then Some ip
      else if length ip = IPv6len \<and> take 12 ip = v4InV6Prefix then Some (drop 12 ip)
      else None)"

definition IP_Equal :: "IP \<Rightarrow> IP \<Rightarrow> bool" where
  "IP_Equal ip x \<longleftrightarrow>
     (if length ip = length x then ip = x
      else if length ip = IPv4len \<and> length x = IPv6len
        then take 12 x = v4InV6Prefix \<and> ip = drop 12 x
      else if length ip = IPv6len \<and> length x = IPv4len
        then take 12 ip = v4InV6Prefix \<and> drop 12 ip = x
      else False)"

subsection \<open>Numbers in text\<close>

definition big :: int where "big = 0xFFFFFF"

text \<open>
  \<open>dtoi\<close>: decimal to integer. Returns the number, the characters consumed and success;
  the loop stops at the first byte that is not a digit, and fails once the number
  reaches \<open>big\<close>.
\<close>

fun dtoi_loop :: "string \<Rightarrow> int \<Rightarrow> nat \<Rightarrow> int \<times> nat \<times> bool" where
  "dtoi_loop [] n i = (if i = 0 then (0, 0, False) else (n, i, True))"
| "dtoi_loop (c # s) n i =
     (case digitVal c of
        Some d \<Rightarrow>
          (let n' = n * 10 + d
           in if n' \<ge> big then (big, i, False) else dtoi_loop s n' (i + 1))
      | None \<Rightarrow> if i = 0 then (0, 0, False) else (n, i, True))"

definition dtoi :: "string \<Rightarrow> int \<times> nat \<times> bool" where
  "dtoi s = dtoi_loop s 0 0"

text \<open>\<open>xtoi\<close>: hexadecimal to integer, with the same three results.\<close>

definition hexval :: "char \<Rightarrow> int option" where
  "hexval c =
     map_of (zip ''0123456789abcdefABCDEF''
                 [0, 1, 2, 3, 4, 5, 6, 7, 8, 9, 10, 11, 12, 13, 14, 15, 10, 11, 12, 13, 14, 15]) c"

fun xtoi_loop :: "string \<Rightarrow> int \<Rightarrow> nat \<Rightarrow> int \<times> nat \<times> bool" where
  "xtoi_loop [] n i = (if i = 0 then (0, i, False) else (n, i, True))"
| "xtoi_loop (c # s) n i =
     (case hexval c of
        Some d \<Rightarrow>
          (let n' = n * 16 + d
           in if n' \<ge> big then (0, i, False) else xtoi_loop s n' (i + 1))
      | None \<Rightarrow> if i = 0 then (0, i, False) else (n, i, True))"

definition xtoi :: "string \<Rightarrow> int \<times> nat \<times> bool" where
  "xtoi s = xtoi_loop s 0 0"

subsection \<open>Parsing addresses\<close>

text \<open>
  \<open>parseIPv4\<close>: four decimal fields of at most 255 separated by dots, and nothing
  after them. The loop variable \<open>i\<close> counts the fields, \<open>p\<close> is the array filled so far.
\<close>

function parseIPv4_loop :: "nat \<Rightarrow> string \<Rightarrow> byte list \<Rightarrow> IP option" where
  "parseIPv4_loop i s p =
     (if i < IPv4len then
        (if s = [] then None
         else if i > 0 \<and> hd s \<noteq> CHR ''.'' then None
         else
           (let s1 = (if i > 0 then tl s else s);
                (n, c, ok) = dtoi s1
            in if \<not> ok \<or> n > 0xFF then None
               else parseIPv4_loop (i + 1) (drop c s1) (p[i := word_of_int n])))
      else if s \<noteq> [] then None
      else Some (IPv4 (p ! 0) (p ! 1) (p ! 2) (p ! 3)))"
  by pat_completeness auto
termination
  by (relation "measure (\<lambda>(i, s, p). IPv4len - i)") (auto simp: IPv4len_def)

definition parseIPv4 :: "string \<Rightarrow> IP option" where
  "parseIPv4 s = parseIPv4_loop 0 s [0, 0, 0, 0]"

text \<open>
  \<open>parseIPv6\<close> without a zone: hexadecimal groups separated by colons, at most one
  ellipsis \<open>::\<close>, and possibly a trailing IPv4 address. The loop state is the byte
  index \<open>i\<close>, the rest of the text, the address filled so far and the position of the
  ellipsis (\<open>-1\<close>: none yet). The loop returns its state when it is left by \<open>break\<close> or
  by its condition, and \<open>None\<close> where the source returns \<open>nil\<close>.
\<close>

function parseIPv6_loop ::
  "nat \<Rightarrow> string \<Rightarrow> byte list \<Rightarrow> int \<Rightarrow> (nat \<times> string \<times> byte list \<times> int) option" where
  "parseIPv6_loop i s ip ellipsis =
     (if i < IPv6len then
        (let (n, c, ok) = xtoi s in
         if \<not> ok \<or> n > 0xFFFF then None
         else if c < length s \<and> s ! c = CHR ''.'' then
           (if ellipsis < 0 \<and> i \<noteq> IPv6len - IPv4len then None
            else if i + IPv4len > IPv6len then None
            else (case parseIPv4 s of
                    None \<Rightarrow> None
                  | Some ip4 \<Rightarrow>
                      Some (i + IPv4len, [],
                            ip[i := ip4 ! 12, i + 1 := ip4 ! 13, i + 2 := ip4 ! 14, i + 3 := ip4 ! 15],
                            ellipsis)))
         else
           (let ip1 = ip[i := word_of_int (n div 256), i + 1 := word_of_int n];
                i1 = i + 2;
                s1 = drop c s
            in if s1 = [] then Some (i1, s1, ip1, ellipsis)
               else if hd s1 \<noteq> CHR '':'' \<or> length s1 = 1 then None
               else
                 (let s2 = tl s1 in
                  if hd s2 = CHR '':'' then
                    (if ellipsis \<ge> 0 then None
                     else if tl s2 = [] then Some (i1, tl s2, ip1, int i1)
                     else parseIPv6_loop i1 (tl s2) ip1 (int i1))
                  else parseIPv6_loop i1 s2 ip1 ellipsis)))
      else Some (i, s, ip, ellipsis))"
  by pat_completeness auto
termination
  by (relation "measure (\<lambda>(i, s, ip, ellipsis). IPv6len - i)") (auto simp: IPv6len_def)

text \<open>
  After the loop: the text must be used up; an address that is too short is filled at
  the ellipsis with zero bytes (the bytes after the ellipsis move to the end).
\<close>

definition parseIPv6_finish :: "nat \<times> string \<times> byte list \<times> int \<Rightarrow> IP option" where
  "parseIPv6_finish st =
     (case st of (i, s, ip, ellipsis) \<Rightarrow>
        if s \<noteq> [] then None
        else if i < IPv6len then
          (if ellipsis < 0 then None
           else
             (let e = nat ellipsis; n = IPv6len - i
              in Some (take e ip @ replicate n 0 @ take (i - e) (drop e ip))))
        else if ellipsis \<ge> 0 then None
        else Some ip)"

definition parseIPv6 :: "string \<Rightarrow> IP option" where
  "parseIPv6 s =
     (let ip = replicate IPv6len (0 :: byte) in
      if length s \<ge> 2 \<and> s ! 0 = CHR '':'' \<and> s ! 1 = CHR '':'' then
        (if drop 2 s = [] then Some ip
         else (case parseIPv6_loop 0 (drop 2 s) ip 0 of
                 None \<Rightarrow> None
               | Some st \<Rightarrow> parseIPv6_finish st))
      else (case parseIPv6_loop 0 s ip (- 1) of
              None \<Rightarrow> None
            | Some st \<Rightarrow> parseIPv6_finish st))"

subsection \<open>Masks and networks\<close>

text \<open>
  \<open>CIDRMask(ones, bits)\<close>: \<open>ones\<close> one-bits followed by zero-bits, \<open>bits\<close> wide; \<open>nil\<close>
  (the empty slice) unless \<open>bits\<close> is 32 or 128 and \<open>ones \<le> bits\<close>.
\<close>

primrec CIDRMask_loop :: "nat \<Rightarrow> nat \<Rightarrow> byte list" where
  "CIDRMask_loop 0 n = []"
| "CIDRMask_loop (Suc l) n =
     (if n \<ge> 8 then 0xff # CIDRMask_loop l (n - 8)
      else NOT (drop_bit n (0xff :: byte)) # CIDRMask_loop l 0)"

definition CIDRMask :: "nat \<Rightarrow> nat \<Rightarrow> IPMask" where
  "CIDRMask ones bits =
     (if bits \<noteq> 8 * IPv4len \<and> bits \<noteq> 8 * IPv6len then []
      else if ones > bits then []
      else CIDRMask_loop (bits div 8) ones)"

definition allFF :: "byte list \<Rightarrow> bool" where
  "allFF b \<longleftrightarrow> list_all (\<lambda>c. c = 0xff) b"

text \<open>\<open>ip.Mask(mask)\<close>: the bytes of \<open>ip\<close> under \<open>mask\<close>; \<open>nil\<close> when the lengths differ.\<close>

definition IP_Mask :: "IP \<Rightarrow> IPMask \<Rightarrow> IP" where
  "IP_Mask ip msk =
     (let msk1 = (if length msk = IPv6len \<and> length ip = IPv4len \<and> allFF (take 12 msk)
                   then drop 12 msk else msk);
          ip1 = (if length msk1 = IPv4len \<and> length ip = IPv6len \<and> take 12 ip = v4InV6Prefix
                 then drop 12 ip else ip)
      in if length ip1 \<noteq> length msk1 then []
         else map (\<lambda>(a, m). a AND m) (zip ip1 msk1))"

text \<open>
  \<open>ParseCIDR(s)\<close>: the address before the first slash, the prefix length after it.
  The result is the address and the network (the address under the mask, and the
  mask), or the \<open>ParseError\<close>.
\<close>

definition ParseCIDR :: "string \<Rightarrow> error + (IP \<times> IPNet)" where
  "ParseCIDR s =
     (if CHR ''/'' \<notin> set s then Inl (ParseError s)
      else
        (let addr = takeWhile (\<lambda>c. c \<noteq> CHR ''/'') s;
             msk = tl (dropWhile (\<lambda>c. c \<noteq> CHR ''/'') s);
             ip4 = parseIPv4 addr;
             iplen = (if ip4 = None then IPv6len else IPv4len);
             ip = (if ip4 = None then parseIPv6 addr else ip4);
             (n, i, ok) = dtoi msk
         in case ip of
              None \<Rightarrow> Inl (ParseError s)
            | Some ip' \<Rightarrow>
                if \<not> ok \<or> i \<noteq> length msk \<or> n > int (8 * iplen) then Inl (ParseError s)
                else
                  (let m = CIDRMask (nat n) (8 * iplen)
                   in Inr (ip', \<lparr>IP = IP_Mask ip' m, Mask = m\<rparr>))))"

text \<open>
  \<open>simpleMaskLength(mask)\<close>: the number of leading one-bits when the mask is ones
  followed by zeros, and \<open>-1\<close> otherwise. \<open>leading_ones\<close> is the inner loop
  \<open>for v&0x80 != 0 { n++; v <<= 1 }\<close> on the first byte that is not \<open>0xff\<close>.
\<close>

function leading_ones :: "int \<Rightarrow> byte \<Rightarrow> int \<times> byte" where
  "leading_ones n v =
     (if v AND 0x80 \<noteq> 0 then leading_ones (n + 1) (push_bit 1 v) else (n, v))"
  by pat_completeness auto
termination
proof (relation "measure (\<lambda>(n, v). unat v)")
  show "wf (measure (\<lambda>(n :: int, v :: byte). unat v))" by simp
next
  fix n :: int and v :: byte
  assume a: "v AND 0x80 \<noteq> 0"
  have u: "unat v < 256" using unsigned_less[of v, where ?'a = nat] by simp
  have g: "128 \<le> unat v"
  proof (rule ccontr)
    assume b: "\<not> 128 \<le> unat v"
    have "v AND 2 ^ 7 \<noteq> 0" using a by simp
    then have "bit v 7" by (simp only: and_exp_eq_0_iff_not_bit not_not)
    then have "bit (unat v) 7" by (simp add: bit_unsigned_iff)
    then have o: "odd (unat v div 2 ^ 7)" by (simp add: bit_iff_odd)
    from b have "unat v div 2 ^ 7 = 0" by simp
    with o show False by simp
  qed
  have "unat (push_bit 1 v) = (2 * unat v) mod 256"
    by (simp add: push_bit_eq_mult unat_word_ariths mult.commute)
  also have "\<dots> = (2 * unat v - 256) mod 256" using g by (simp add: le_mod_geq)
  also have "\<dots> = 2 * unat v - 256" using u by simp
  finally have "unat (push_bit 1 v) < unat v" using u g by linarith
  then show "((n + 1, push_bit 1 v), (n, v)) \<in> measure (\<lambda>(n, v). unat v)" by simp
qed

fun simpleMaskLength_loop :: "byte list \<Rightarrow> int \<Rightarrow> int" where
  "simpleMaskLength_loop [] n = n"
| "simpleMaskLength_loop (v # rest) n =
     (if v = 0xff then simpleMaskLength_loop rest (n + 8)
      else
        (let (n', v') = leading_ones n v
         in if v' \<noteq> 0 then - 1
            else if list_ex (\<lambda>b. b \<noteq> 0) rest then - 1
            else n'))"

definition simpleMaskLength :: "IPMask \<Rightarrow> int" where
  "simpleMaskLength msk = simpleMaskLength_loop msk 0"

text \<open>\<open>m.Size()\<close>: the ones and the bits of a mask; \<open>(0, 0)\<close> for a mask not in the
  canonical form.\<close>

definition IPMask_Size :: "IPMask \<Rightarrow> int \<times> int" where
  "IPMask_Size m =
     (let ones = simpleMaskLength m; bits = int (length m) * 8
      in if ones = - 1 then (0, 0) else (ones, bits))"

definition networkNumberAndMask :: "IPNet \<Rightarrow> (IP \<times> IPMask) option" where
  "networkNumberAndMask n =
     (let ip = (case To4 (IP n) of Some ip4 \<Rightarrow> Some ip4
                | None \<Rightarrow> if length (IP n) \<noteq> IPv6len then None else Some (IP n))
      in case ip of
           None \<Rightarrow> None
         | Some ip' \<Rightarrow>
             if length (Mask n) = IPv4len then
               (if length ip' \<noteq> IPv4len then None else Some (ip', Mask n))
             else if length (Mask n) = IPv6len then
               (if length ip' = IPv4len then Some (ip', drop 12 (Mask n))
                else Some (ip', Mask n))
             else None)"

text \<open>\<open>n.Contains(ip)\<close>: whether the network includes the address.\<close>

definition Contains :: "IPNet \<Rightarrow> IP \<Rightarrow> bool" where
  "Contains n ip \<longleftrightarrow>
     (case networkNumberAndMask n of
        None \<Rightarrow> False
      | Some (nn, m) \<Rightarrow>
          (let ip1 = (case To4 ip of Some x \<Rightarrow> x | None \<Rightarrow> ip)
           in length ip1 = length nn
              \<and> list_all (\<lambda>(a, b, c). a AND c = b AND c) (zip nn (zip ip1 m))))"

subsection \<open>Text forms\<close>

definition hexDigit :: "int \<Rightarrow> char" where
  "hexDigit k = ''0123456789abcdef'' ! nat (k mod 16)"

definition hexString :: "byte list \<Rightarrow> string" where
  "hexString b = concat (map (\<lambda>tn. [hexDigit (uint tn div 16), hexDigit (uint tn mod 16)]) b)"

text \<open>\<open>appendHex\<close>: the hexadecimal digits of a 16-bit group, without leading zeros.\<close>

definition appendHex :: "int \<Rightarrow> string" where
  "appendHex i =
     (if i = 0 then ''0''
      else concat (map (\<lambda>j. if i div 16 ^ j > 0 then [hexDigit (i div 16 ^ j)] else [])
                       (rev [0..<8])))"

text \<open>
  The IPv6 text of \<open>ip.String()\<close>: the eight 16-bit groups in hexadecimal separated by
  colons, with the first longest run of two or more zero groups written as \<open>::\<close>.
  \<open>zero_run gs\<close> is the length of the run of zero groups at the head of \<open>gs\<close>,
  \<open>longest_run gs i best\<close> scans the groups from index \<open>i\<close> and keeps the first run
  that is strictly longer than the best so far (start and length).
\<close>

definition groups :: "IP \<Rightarrow> int list" where
  "groups p = map (\<lambda>k. uint (p ! (2 * k)) * 256 + uint (p ! (2 * k + 1))) [0..<8]"

definition zero_run :: "int list \<Rightarrow> nat" where
  "zero_run gs = length (takeWhile (\<lambda>g. g = 0) gs)"

fun longest_run :: "int list \<Rightarrow> nat \<Rightarrow> nat \<times> nat \<Rightarrow> nat \<times> nat" where
  "longest_run [] i best = best"
| "longest_run (g # gs) i best =
     longest_run gs (i + 1)
       (if zero_run (g # gs) > snd best then (i, zero_run (g # gs)) else best)"

definition join_colon :: "string list \<Rightarrow> string" where
  "join_colon xs = (case xs of [] \<Rightarrow> [] | y # ys \<Rightarrow> y @ concat (map (\<lambda>z. CHR '':'' # z) ys))"

definition IPv6_String :: "IP \<Rightarrow> string" where
  "IPv6_String p =
     (let gs = groups p; (e0, l) = longest_run gs 0 (0, 0)
      in if l \<le> 1 then join_colon (map appendHex gs)
         else join_colon (map appendHex (take e0 gs)) @ ''::''
              @ join_colon (map appendHex (drop (e0 + l) gs)))"

text \<open>\<open>ip.String()\<close>: dotted decimal for an IPv4 address (in either form).\<close>

definition IP_String :: "IP \<Rightarrow> string" where
  "IP_String ip =
     (if length ip = 0 then ''<nil>''
      else case To4 ip of
        Some p4 \<Rightarrow>
          uitoa (uint (p4 ! 0)) @ ''.'' @ uitoa (uint (p4 ! 1)) @ ''.''
          @ uitoa (uint (p4 ! 2)) @ ''.'' @ uitoa (uint (p4 ! 3))
      | None \<Rightarrow>
          if length ip \<noteq> IPv6len then ''?'' @ hexString ip
          else IPv6_String ip)"

definition IPMask_String :: "IPMask \<Rightarrow> string" where
  "IPMask_String m = (if length m = 0 then ''<nil>'' else hexString m)"

text \<open>\<open>n.String()\<close>: the CIDR notation of a network, such as "192.0.2.0/24".\<close>

definition IPNet_String :: "IPNet \<Rightarrow> string" where
  "IPNet_String n =
     (case networkNumberAndMask n of
        None \<Rightarrow> ''<nil>''
      | Some (nn, m) \<Rightarrow>
          (let l = simpleMaskLength m
           in if l = - 1 then IP_String nn @ ''/'' @ IPMask_String m
              else IP_String nn @ ''/'' @ uitoa l))"

section \<open>Integer operations and the random source\<close>

text \<open>
  \<open>x << s\<close> on an \<open>int\<close> with an unsigned shift count: bits shifted past the width are
  lost, so a count of 64 or more gives 0.
\<close>

definition shl :: "goint \<Rightarrow> uint \<Rightarrow> goint" where
  "shl x s = (if s \<ge> 64 then 0 else push_bit (unat s) x)"

text \<open>\<open>x / y\<close> on \<open>int\<close>: truncated towards zero, a panic when \<open>y\<close> is 0.\<close>

definition int_div :: "goint \<Rightarrow> goint \<Rightarrow> goint result" where
  "int_div x y = (if y = 0 then Panic DivideByZero else Ok (word_of_int (sint x sdiv sint y)))"

text \<open>
  \<open>rand.Intn(n)\<close>: a panic unless \<open>n > 0\<close>, otherwise a number in \<open>[0, n)\<close>. The random
  source is a parameter of the model: \<open>r\<close> is the number the generator (seeded from the
  clock) yields for this call, reduced into the range. Every number of the range arises
  from some \<open>r\<close>.
\<close>

definition Intn :: "goint \<Rightarrow> nat \<Rightarrow> goint result" where
  "Intn n r =
     (if sint n \<le> 0 then Panic InvalidArgumentToIntn
      else Ok (word_of_nat (r mod nat (sint n))))"

section \<open>The program\<close>

text \<open>Of a \<open>compute.Route\<close> the program reads the fields \<open>Network\<close> and \<open>DestRange\<close>.\<close>

record Route =
  Network :: string
  DestRange :: string

definition legacyNetwork :: IP where
  "legacyNetwork = IPv4 10 240 0 0"

text \<open>
  The first loop of \<open>selectCIDRBlock\<close>, over the routes: \<open>cidrBlocks\<close> is the slice built
  so far. The result is the error of the first \<open>return\<close> reached, or the slice. (The
  line printed to standard output for a route of another network is not part of the
  returned values and is left out.)
\<close>

fun route_loop :: "Route list \<Rightarrow> string \<Rightarrow> IPNet list \<Rightarrow> error + IPNet list" where
  "route_loop [] network cidrBlocks = Inr cidrBlocks"
| "route_loop (i # routes) network cidrBlocks =
     (if \<not> HasSuffix (Network i) network then route_loop routes network cidrBlocks
      else case ParseCIDR (DestRange i) of
        Inl err \<Rightarrow> Inl err
      | Inr (ip, ipNet) \<Rightarrow>
          (let maskSize = fst (IPMask_Size (Mask ipNet)) in
           if maskSize < 8 then route_loop routes network cidrBlocks
           else if IP_Equal legacyNetwork (IP ipNet) \<and> maskSize \<le> 16
             then Inl LegacyNetworkUnsupported
           else if maskSize \<le> 16 \<and> Contains ipNet (IPv4 10 240 1 1)
                   \<and> Contains ipNet (IPv4 10 240 250 250)
             then Inl RangeExhausted
           else route_loop routes network (cidrBlocks @ [ipNet])))"

text \<open>
  The loop over \<open>cidrBlocks\<close> inside the sampling loop. Its body is
  \<open>if block.Contains(candidateIPAddress) { continue }\<close>: the \<open>continue\<close> has no label, so
  it belongs to this loop, which goes on with the next block either way.
\<close>

definition conflict_body :: "IPNet \<Rightarrow> IP \<Rightarrow> 'a completion" where
  "conflict_body block candidateIPAddress =
     (if Contains block candidateIPAddress then Continue else Normal)"

fun conflict_loop :: "IPNet list \<Rightarrow> IP \<Rightarrow> 'a completion" where
  "conflict_loop [] candidateIPAddress = Normal"
| "conflict_loop (block # cidrBlocks) candidateIPAddress =
     (case conflict_body block candidateIPAddress of
        Normal \<Rightarrow> conflict_loop cidrBlocks candidateIPAddress
      | Continue \<Rightarrow> conflict_loop cidrBlocks candidateIPAddress
      | Leave r \<Rightarrow> Leave r)"

text \<open>
  The two draws of one pass through the sampling loop: the third and the fourth octet
  of the candidate address. \<open>r1\<close> and \<open>r2\<close> are what the random source yields.
\<close>

definition sample_octets :: "goint \<Rightarrow> nat \<Rightarrow> nat \<Rightarrow> (byte \<times> byte) result" where
  "sample_octets fourthOctetIncrement r1 r2 =
     (case Intn 254 r1 of
        Panic p \<Rightarrow> Panic p
      | Ok a \<Rightarrow>
          (case int_div 255 fourthOctetIncrement of
             Panic p \<Rightarrow> Panic p
           | Ok q \<Rightarrow>
               (case Intn (q * fourthOctetIncrement + 1) r2 of
                  Panic p \<Rightarrow> Panic p
                | Ok b \<Rightarrow> Ok (ucast (a + 1), ucast b))))"

text \<open>One pass through the body of the sampling loop \<open>for { ... }\<close>.\<close>

definition sampling_body ::
  "IPNet list \<Rightarrow> goint \<Rightarrow> uint \<Rightarrow> nat \<Rightarrow> nat \<Rightarrow> (error + string) completion" where
  "sampling_body cidrBlocks fourthOctetIncrement cidrBlockSize r1 r2 =
     (case sample_octets fourthOctetIncrement r1 r2 of
        Panic p \<Rightarrow> Leave (Panic p)
      | Ok (thirdOctet, fourthOctet) \<Rightarrow>
          (let candidateIPAddress = IPv4 10 240 thirdOctet fourthOctet in
           case conflict_loop cidrBlocks candidateIPAddress of
             Continue \<Rightarrow> Continue
           | Leave r \<Rightarrow> Leave r
           | Normal \<Rightarrow>
               (case ParseCIDR (Sprintf_s_slash_d (IP_String candidateIPAddress) cidrBlockSize) of
                  Inl err \<Rightarrow> Leave (Ok (Inl (ConstructedCIDRParse err)))
                | Inr (ip, newCidr) \<Rightarrow>
                    (let split = Split (IPNet_String newCidr) CHR ''/'' in
                     if length split \<noteq> 2
                     then Leave (Ok (Inl (ConstructedCIDRSplit (IPNet_String newCidr))))
                     else Leave (Ok (Inr (IPNet_String newCidr)))))))"

text \<open>
  The sampling loop has no condition: it runs until its body leaves the function.
  \<open>rnd\<close> is the sequence of numbers the random source yields after seeding, \<open>k\<close> the
  number of draws made so far. \<open>None\<close> stands for a loop that never ends.
\<close>

partial_function (option) sampling_loop ::
  "IPNet list \<Rightarrow> goint \<Rightarrow> uint \<Rightarrow> (nat \<Rightarrow> nat) \<Rightarrow> nat \<Rightarrow> (error + string) result option" where
  "sampling_loop cidrBlocks fourthOctetIncrement cidrBlockSize rnd k =
     (case sampling_body cidrBlocks fourthOctetIncrement cidrBlockSize (rnd k) (rnd (k + 1)) of
        Normal \<Rightarrow> sampling_loop cidrBlocks fourthOctetIncrement cidrBlockSize rnd (k + 2)
      | Continue \<Rightarrow> sampling_loop cidrBlocks fourthOctetIncrement cidrBlockSize rnd (k + 2)
      | Leave r \<Rightarrow> Some r)"

declare sampling_loop.simps [code]

text \<open>
  \<open>selectCIDRBlock(routes, cidrBlockSize, network)\<close>. A returned pair \<open>(s, nil)\<close> is
  \<open>Inr s\<close>, a returned pair \<open>("", err)\<close> is \<open>Inl err\<close>.
\<close>

definition selectCIDRBlock ::
  "Route list \<Rightarrow> uint \<Rightarrow> string \<Rightarrow> (nat \<Rightarrow> nat) \<Rightarrow> (error + string) result option" where
  "selectCIDRBlock routes cidrBlockSize network rnd =
     (case route_loop routes network [] of
        Inl err \<Rightarrow> Some (Ok (Inl err))
      | Inr cidrBlocks \<Rightarrow>
          sampling_loop cidrBlocks (shl 1 (32 - cidrBlockSize)) cidrBlockSize rnd 0)"

text \<open>
  The table of device sizes is a package-level variable; \<open>tpuDeviceNetworkSizes\<close> is its
  initial value. \<open>cidrBlockSize\<close> reads the table it is given and returns it with the
  result, so that what the call does to the table is part of the model.
\<close>

definition tpuDeviceNetworkSizes :: "string \<rightharpoonup> uint" where
  "tpuDeviceNetworkSizes =
     map_of [(''v2-8'', 29), (''v2-32'', 29), (''v2-128'', 27), (''v2-256'', 26),
             (''v2-512'', 25), (''v3-8'', 29), (''v3-32'', 29), (''v3-64'', 28),
             (''v3-128'', 27), (''v3-256'', 26), (''v3-512'', 25), (''v3-1024'', 24)]"

definition cidrBlockSize ::
  "(string \<rightharpoonup> uint) \<Rightarrow> string \<Rightarrow> (error + uint) \<times> (string \<rightharpoonup> uint)" where
  "cidrBlockSize sizes hardwareType =
     (case sizes hardwareType of
        None \<Rightarrow> (Inl (UnknownTPUDeviceSize hardwareType), sizes)
      | Some cidrBits \<Rightarrow> (Inr cidrBits, sizes))"

section \<open>Properties of the size table\<close>

text \<open>
  Claim C9. \<open>cidrBlockSize\<close> returns the prefix length stored in the table exactly when
  the hardware type is a key of the table, and the error for an unknown device size
  exactly when it is not; it leaves the table as it was. On the table of the program,
  "v3-256" yields 26 and "v9-999" fails.
\<close>

theorem cidrBlockSize_table_lookup:
  "(hardwareType \<in> dom sizes \<longleftrightarrow>
      (\<exists>cidrBits. sizes hardwareType = Some cidrBits
         \<and> fst (cidrBlockSize sizes hardwareType) = Inr cidrBits))
   \<and> (hardwareType \<notin> dom sizes \<longleftrightarrow>
      fst (cidrBlockSize sizes hardwareType) = Inl (UnknownTPUDeviceSize hardwareType))
   \<and> snd (cidrBlockSize sizes hardwareType) = sizes
   \<and> fst (cidrBlockSize tpuDeviceNetworkSizes ''v3-256'') = Inr 26
   \<and> fst (cidrBlockSize tpuDeviceNetworkSizes ''v9-999'') = Inl (UnknownTPUDeviceSize ''v9-999'')"
proof -
  have a: "fst (cidrBlockSize tpuDeviceNetworkSizes ''v3-256'') = Inr 26"
    by (simp add: cidrBlockSize_def tpuDeviceNetworkSizes_def)
  have b: "fst (cidrBlockSize tpuDeviceNetworkSizes ''v9-999'') = Inl (UnknownTPUDeviceSize ''v9-999'')"
    by (simp add: cidrBlockSize_def tpuDeviceNetworkSizes_def)
  have c: "snd (cidrBlockSize sizes hardwareType) = sizes"
    by (simp add: cidrBlockSize_def split: option.splits)
  show ?thesis using a b c
    by (auto simp: cidrBlockSize_def split: option.splits)
qed

section \<open>Properties of the route loop\<close>

lemma route_loop_filter:
  "route_loop (filter (\<lambda>r. HasSuffix (Network r) network) routes) network cidrBlocks
     = route_loop routes network cidrBlocks"
  by (induction routes arbitrary: cidrBlocks) (auto split: sum.splits prod.splits simp: Let_def)

lemma route_loop_other_DestRange:
  "route_loop (map (\<lambda>r. if HasSuffix (Network r) network then r else r\<lparr>DestRange := d\<rparr>) routes)
       network cidrBlocks
     = route_loop routes network cidrBlocks"
  by (induction routes arbitrary: cidrBlocks) (auto split: sum.splits prod.splits simp: Let_def)

text \<open>
  Claim C4. Routes whose network does not end with the target suffix have no effect:
  removing them all leaves the conflict set and the result of \<open>selectCIDRBlock\<close>
  unchanged for the same random draws, and so does replacing their destination ranges
  by any text \<open>d\<close> (they are never parsed, so a malformed one cannot abort the call).
\<close>

theorem other_network_routes_ignored:
  "route_loop (filter (\<lambda>r. HasSuffix (Network r) network) routes) network [] = route_loop routes network []
   \<and> selectCIDRBlock (filter (\<lambda>r. HasSuffix (Network r) network) routes) bits network rnd
       = selectCIDRBlock routes bits network rnd
   \<and> selectCIDRBlock
         (map (\<lambda>r. if HasSuffix (Network r) network then r else r\<lparr>DestRange := d\<rparr>) routes)
         bits network rnd
       = selectCIDRBlock routes bits network rnd"
  by (simp add: selectCIDRBlock_def route_loop_filter route_loop_other_DestRange)

lemma route_loop_aborts_on_malformed:
  "r \<in> set routes \<Longrightarrow> HasSuffix (Network r) network \<Longrightarrow> ParseCIDR (DestRange r) = Inl err
     \<Longrightarrow> \<exists>e. route_loop routes network cidrBlocks = Inl e"
proof (induction routes arbitrary: cidrBlocks)
  case Nil
  then show ?case by simp
next
  case (Cons i routes)
  show ?case
  proof (cases "i = r")
    case True
    with Cons.prems show ?thesis by simp
  next
    case False
    with Cons.prems have "r \<in> set routes" by simp
    from Cons.IH[OF this Cons.prems(2) Cons.prems(3)]
    show ?thesis by (auto split: sum.splits prod.splits simp: Let_def)
  qed
qed

text \<open>
  Claim C7. If some route of the target network has a destination range that
  \<open>ParseCIDR\<close> rejects, \<open>selectCIDRBlock\<close> returns an error and no CIDR string.
\<close>

theorem malformed_relevant_route_aborts:
  assumes "r \<in> set routes" and "HasSuffix (Network r) network"
    and "ParseCIDR (DestRange r) = Inl err"
  shows "\<exists>e. selectCIDRBlock routes bits network rnd = Some (Ok (Inl e))"
proof -
  from route_loop_aborts_on_malformed[OF assms]
  obtain e where "route_loop routes network [] = Inl e" by blast
  then show ?thesis by (simp add: selectCIDRBlock_def)
qed

theorem malformed_relevant_route_aborts_witness:
  "\<exists>e. selectCIDRBlock [\<lparr>Network = ''proj/default'', DestRange = ''10.240.0.0''\<rparr>] 29 ''default'' (\<lambda>k. 0)
      = Some (Ok (Inl e))"
proof -
  have p: "ParseCIDR ''10.240.0.0'' = Inl (ParseError ''10.240.0.0'')" by code_simp
  have h: "HasSuffix ''proj/default'' ''default''" by code_simp
  show ?thesis
    using malformed_relevant_route_aborts[of "\<lparr>Network = ''proj/default'', DestRange = ''10.240.0.0''\<rparr>"
        "[\<lparr>Network = ''proj/default'', DestRange = ''10.240.0.0''\<rparr>]" "''default''"
        "ParseError ''10.240.0.0''" 29 "\<lambda>k. 0"] p h
    by simp
qed

lemma route_loop_append:
  "route_loop (xs @ ys) network cidrBlocks =
     (case route_loop xs network cidrBlocks of
        Inl e \<Rightarrow> Inl e
      | Inr blocks \<Rightarrow> route_loop ys network blocks)"
  by (induction xs arbitrary: cidrBlocks) (auto split: sum.splits prod.splits simp: Let_def)

lemma split_at_first:
  "r \<in> set routes \<Longrightarrow>
     \<exists>rest. routes = takeWhile (\<lambda>x. x \<noteq> r) routes @ r # rest"
proof -
  assume a: "r \<in> set routes"
  then have "dropWhile (\<lambda>x. x \<noteq> r) routes \<noteq> []" by (auto simp: dropWhile_eq_Nil_conv)
  then obtain y rest where d: "dropWhile (\<lambda>x. x \<noteq> r) routes = y # rest"
    by (cases "dropWhile (\<lambda>x. x \<noteq> r) routes") auto
  have "\<not> (y \<noteq> r)" using hd_dropWhile[of "\<lambda>x. x \<noteq> r" routes] d by auto
  then have "y = r" by simp
  with d have "routes = takeWhile (\<lambda>x. x \<noteq> r) routes @ r # rest"
    using takeWhile_dropWhile_id[of "\<lambda>x. x \<noteq> r" routes] by simp
  then show ?thesis by blast
qed

text \<open>
  Claim C5, as amended. The claim says that a route of the target network that parses to
  base address 10.240.0.0 with a prefix length from 8 to 16 makes the call fail with the
  legacy-network error. The routes are checked in order and the first error wins: the
  call fails, with the error of an earlier route of the list if one aborts the loop (a
  malformed range, or a covering range), and with the legacy-network error otherwise.
\<close>

theorem legacy_route_rejected:
  assumes "r \<in> set routes" and "HasSuffix (Network r) network"
    and "ParseCIDR (DestRange r) = Inr (ip, ipNet)"
    and "IP_Equal legacyNetwork (IP ipNet)"
    and "8 \<le> fst (IPMask_Size (Mask ipNet))" and "fst (IPMask_Size (Mask ipNet)) \<le> 16"
  shows "selectCIDRBlock routes bits network rnd =
           Some (Ok (Inl (case route_loop (takeWhile (\<lambda>x. x \<noteq> r) routes) network [] of
                            Inl e \<Rightarrow> e
                          | Inr cidrBlocks \<Rightarrow> LegacyNetworkUnsupported)))"
proof -
  from split_at_first[OF assms(1)] obtain rest
    where s: "routes = takeWhile (\<lambda>x. x \<noteq> r) routes @ r # rest" by blast
  have h: "route_loop (r # rest) network blocks = Inl LegacyNetworkUnsupported" for blocks
    using assms by (simp add: Let_def)
  have "route_loop routes network [] =
          (case route_loop (takeWhile (\<lambda>x. x \<noteq> r) routes) network [] of
             Inl e \<Rightarrow> Inl e | Inr blocks \<Rightarrow> Inl LegacyNetworkUnsupported)"
    by (subst s, subst route_loop_append) (simp add: h del: route_loop.simps split: sum.splits)
  then show ?thesis by (simp add: selectCIDRBlock_def split: sum.splits)
qed

theorem legacy_route_rejected_witness:
  "selectCIDRBlock [\<lparr>Network = ''proj/default'', DestRange = ''10.240.0.0/16''\<rparr>] 29 ''default'' (\<lambda>k. 0)
     = Some (Ok (Inl LegacyNetworkUnsupported))"
proof -
  have p: "ParseCIDR ''10.240.0.0/16''
             = Inr (IPv4 10 240 0 0, \<lparr>IP = [10, 240, 0, 0], Mask = [255, 255, 0, 0]\<rparr>)"
    by code_simp
  have h: "HasSuffix ''proj/default'' ''default''" by code_simp
  have e: "IP_Equal legacyNetwork [10, 240, 0, 0]" by code_simp
  have m: "fst (IPMask_Size [255, 255, 0, 0]) = 16" by code_simp
  show ?thesis
    using legacy_route_rejected[of "\<lparr>Network = ''proj/default'', DestRange = ''10.240.0.0/16''\<rparr>"
        "[\<lparr>Network = ''proj/default'', DestRange = ''10.240.0.0/16''\<rparr>]" "''default''"
        "IPv4 10 240 0 0" "\<lparr>IP = [10, 240, 0, 0], Mask = [255, 255, 0, 0]\<rparr>" 29 "\<lambda>k. 0"] p h e m
    by simp
qed

theorem legacy_route_counterexample:
  "HasSuffix ''default'' ''default''
   \<and> ParseCIDR ''10.240.0.0/16''
       = Inr (IPv4 10 240 0 0, \<lparr>IP = [10, 240, 0, 0], Mask = [255, 255, 0, 0]\<rparr>)
   \<and> IPMask_Size [255, 255, 0, 0] = (16, 32)
   \<and> selectCIDRBlock [\<lparr>Network = ''default'', DestRange = ''10.0.0.0/8''\<rparr>,
                       \<lparr>Network = ''default'', DestRange = ''10.240.0.0/16''\<rparr>] 29 ''default'' (\<lambda>k. 0)
       = Some (Ok (Inl RangeExhausted))"
  by code_simp

text \<open>
  Claim C6, as amended. A route with prefix length below 8 is skipped before the
  covering check, and a route with base address 10.240.0.0 is caught by the legacy
  check first. For a route of the target network with prefix length from 8 to 16 and
  another base address that contains both probe addresses, the call fails, with the
  error of an earlier route of the list if one aborts the loop, and with the
  range-exhausted error otherwise.
\<close>

theorem covering_route_rejected:
  assumes "r \<in> set routes" and "HasSuffix (Network r) network"
    and "ParseCIDR (DestRange r) = Inr (ip, ipNet)"
    and "8 \<le> fst (IPMask_Size (Mask ipNet))" and "fst (IPMask_Size (Mask ipNet)) \<le> 16"
    and "\<not> IP_Equal legacyNetwork (IP ipNet)"
    and "Contains ipNet (IPv4 10 240 1 1)" and "Contains ipNet (IPv4 10 240 250 250)"
  shows "selectCIDRBlock routes bits network rnd =
           Some (Ok (Inl (case route_loop (takeWhile (\<lambda>x. x \<noteq> r) routes) network [] of
                            Inl e \<Rightarrow> e
                          | Inr cidrBlocks \<Rightarrow> RangeExhausted)))"
proof -
  from split_at_first[OF assms(1)] obtain rest
    where s: "routes = takeWhile (\<lambda>x. x \<noteq> r) routes @ r # rest" by blast
  have h: "route_loop (r # rest) network blocks = Inl RangeExhausted" for blocks
    using assms by (simp add: Let_def)
  have "route_loop routes network [] =
          (case route_loop (takeWhile (\<lambda>x. x \<noteq> r) routes) network [] of
             Inl e \<Rightarrow> Inl e | Inr blocks \<Rightarrow> Inl RangeExhausted)"
    by (subst s, subst route_loop_append) (simp add: h del: route_loop.simps split: sum.splits)
  then show ?thesis by (simp add: selectCIDRBlock_def split: sum.splits)
qed

theorem covering_route_rejected_witness:
  "selectCIDRBlock [\<lparr>Network = ''proj/default'', DestRange = ''10.0.0.0/8''\<rparr>] 29 ''default'' (\<lambda>k. 0)
     = Some (Ok (Inl RangeExhausted))"
proof -
  have p: "ParseCIDR ''10.0.0.0/8''
             = Inr (IPv4 10 0 0 0, \<lparr>IP = [10, 0, 0, 0], Mask = [255, 0, 0, 0]\<rparr>)"
    by code_simp
  have h: "HasSuffix ''proj/default'' ''default''" by code_simp
  have e: "\<not> IP_Equal legacyNetwork [10, 0, 0, 0]" by code_simp
  have m: "fst (IPMask_Size [255, 0, 0, 0]) = 8" by code_simp
  have c1: "Contains \<lparr>IP = [10, 0, 0, 0], Mask = [255, 0, 0, 0]\<rparr> (IPv4 10 240 1 1)" by code_simp
  have c2: "Contains \<lparr>IP = [10, 0, 0, 0], Mask = [255, 0, 0, 0]\<rparr> (IPv4 10 240 250 250)" by code_simp
  show ?thesis
    using covering_route_rejected[of "\<lparr>Network = ''proj/default'', DestRange = ''10.0.0.0/8''\<rparr>"
        "[\<lparr>Network = ''proj/default'', DestRange = ''10.0.0.0/8''\<rparr>]" "''default''"
        "IPv4 10 0 0 0" "\<lparr>IP = [10, 0, 0, 0], Mask = [255, 0, 0, 0]\<rparr>" 29 "\<lambda>k. 0"] p h e m c1 c2
    by simp
qed

theorem covering_route_counterexample:
  "HasSuffix ''default'' ''default''
   \<and> ParseCIDR ''0.0.0.0/0'' = Inr (IPv4 0 0 0 0, \<lparr>IP = [0, 0, 0, 0], Mask = [0, 0, 0, 0]\<rparr>)
   \<and> IPMask_Size [0, 0, 0, 0] = (0, 32)
   \<and> Contains \<lparr>IP = [0, 0, 0, 0], Mask = [0, 0, 0, 0]\<rparr> (IPv4 10 240 1 1)
   \<and> Contains \<lparr>IP = [0, 0, 0, 0], Mask = [0, 0, 0, 0]\<rparr> (IPv4 10 240 250 250)
   \<and> selectCIDRBlock [\<lparr>Network = ''default'', DestRange = ''0.0.0.0/0''\<rparr>] 29 ''default'' (\<lambda>k. 0)
       = Some (Ok (Inr ''10.240.1.0/29''))"
  by code_simp

section \<open>Properties of the sampling loop\<close>

lemma conflict_loop_Normal: "conflict_loop cidrBlocks candidateIPAddress = Normal"
  by (induction cidrBlocks) (auto simp: conflict_body_def)

lemma sint_small: "0 \<le> m \<Longrightarrow> m \<le> 256 \<Longrightarrow> sint (word_of_int m :: goint) = m"
  by (simp add: signed_of_int signed_take_bit_int_eq_self)

lemma stride_bound:
  fixes x :: int
  assumes "x \<noteq> 0"
  shows "0 \<le> (255 sdiv x) * x \<and> (255 sdiv x) * x \<le> 255"
proof -
  have e: "(255 sdiv x) * x = 255 - 255 smod x"
    using sdiv_mult_smod_eq[of 255 x] by simp
  have "255 smod x = 255 mod \<bar>x\<bar>" by (simp add: signed_modulo_int_def)
  moreover have "0 \<le> (255 :: int) mod \<bar>x\<bar>" using assms by simp
  moreover have "(255 :: int) mod \<bar>x\<bar> \<le> 255" by (rule zmod_le_nonneg_dividend) simp
  ultimately show ?thesis using e by simp
qed

lemma Intn_254: "Intn 254 r1 = Ok (word_of_nat (r1 mod 254))"
  by (simp add: Intn_def)

lemma Intn_small:
  assumes "0 \<le> m" and "m \<le> 255"
  shows "Intn (word_of_int (m + 1)) r2 = Ok (word_of_nat (r2 mod (nat m + 1)))"
proof -
  have s: "sint (word_of_int (m + 1) :: goint) = m + 1"
    using assms by (intro sint_small) auto
  have n: "nat (m + 1) = nat m + 1" using assms(1) by (simp add: nat_add_distrib)
  have p: "\<not> m + 1 \<le> 0" using assms(1) by simp
  show ?thesis unfolding Intn_def s n using p by (simp only: if_False)
qed

lemma stride_word:
  "word_of_int (255 sdiv sint inc) * inc + 1
     = (word_of_int ((255 sdiv sint inc) * sint inc + 1) :: goint)"
proof -
  have "(word_of_int ((255 sdiv sint inc) * sint inc + 1) :: goint)
          = word_of_int (255 sdiv sint inc) * word_of_int (sint inc) + 1"
    by (simp only: of_int_add of_int_mult of_int_1)
  then show ?thesis by (simp only: of_int_sint scast_id)
qed

lemma sample_octets_steps:
  "Intn 254 r1 = Ok a \<Longrightarrow> int_div 255 inc = Ok q \<Longrightarrow> Intn (q * inc + 1) r2 = Ok b
     \<Longrightarrow> sample_octets inc r1 r2 = Ok (ucast (a + 1), ucast b)"
  by (simp add: sample_octets_def)

lemma third_octet: "unat (ucast (word_of_nat (r1 mod 254) + 1 :: goint) :: byte) = r1 mod 254 + 1"
proof -
  have "(word_of_nat (r1 mod 254) + 1 :: goint) = word_of_nat (r1 mod 254 + 1)" by simp
  moreover have "r1 mod 254 < 254" by simp
  then have "r1 mod 254 + 1 < 256" by linarith
  ultimately show ?thesis
    by (simp only: unsigned_ucast_eq unat_of_nat) (simp add: take_bit_eq_mod)
qed

lemma fourth_octet:
  assumes "0 \<le> m" and "m \<le> 255"
  shows "unat (ucast (word_of_nat (r2 mod (nat m + 1)) :: goint) :: byte) = r2 mod (nat m + 1)"
proof -
  have "r2 mod (nat m + 1) < nat m + 1" by simp
  moreover have "nat m + 1 \<le> 256" using assms by simp
  ultimately have "r2 mod (nat m + 1) < 256" by linarith
  then show ?thesis
    by (simp only: unsigned_ucast_eq unat_of_nat) (simp add: take_bit_eq_mod)
qed

lemma sample_octets_Ok:
  assumes "inc \<noteq> 0"
  shows "\<exists>t f. sample_octets inc r1 r2 = Ok (t, f)
           \<and> unat t = r1 mod 254 + 1
           \<and> unat f = r2 mod (nat ((255 sdiv sint inc) * sint inc) + 1)"
proof -
  have x: "sint inc \<noteq> 0" using assms by (simp add: signed_eq_0_iff)
  have b: "0 \<le> (255 sdiv sint inc) * sint inc" "(255 sdiv sint inc) * sint inc \<le> 255"
    using stride_bound[OF x] by auto
  have d: "int_div 255 inc = Ok (word_of_int (255 sdiv sint inc))"
    using assms by (simp add: int_div_def)
  have i2: "Intn (word_of_int (255 sdiv sint inc) * inc + 1) r2
              = Ok (word_of_nat (r2 mod (nat ((255 sdiv sint inc) * sint inc) + 1)))"
    unfolding stride_word by (rule Intn_small[OF b])
  from sample_octets_steps[OF Intn_254 d i2] third_octet fourth_octet[OF b]
  show ?thesis by blast
qed

lemma sample_octets_zero: "sample_octets 0 r1 r2 = Panic DivideByZero"
  by (simp add: sample_octets_def Intn_def int_div_def)

lemma sampling_body_Leave:
  "\<exists>res. sampling_body cidrBlocks inc bits r1 r2 = Leave res
     \<and> sampling_body [] inc bits r1 r2 = Leave res
     \<and> (if inc = 0 then res = Panic DivideByZero
        else (\<exists>s. res = Ok (Inr s)) \<or> (\<exists>e. res = Ok (Inl (ConstructedCIDRParse e)))
             \<or> (\<exists>s. res = Ok (Inl (ConstructedCIDRSplit s))))"
proof (cases "inc = 0")
  case True
  then show ?thesis by (simp add: sampling_body_def sample_octets_zero)
next
  case False
  from sample_octets_Ok[OF False, of r1 r2] obtain t f
    where "sample_octets inc r1 r2 = Ok (t, f)" by blast
  with False show ?thesis
    by (auto simp: sampling_body_def conflict_loop_Normal Let_def split: sum.splits prod.splits)
qed

lemma shl_one_zero: "shl 1 s = 0 \<longleftrightarrow> 64 \<le> s"
proof (cases "64 \<le> s")
  case True
  then show ?thesis by (simp add: shl_def)
next
  case False
  then have "unat s < 64" by (simp add: word_le_nat_alt not_le)
  then have "push_bit (unat s) (1 :: goint) \<noteq> 0"
    by (simp add: push_bit_eq_mult)
  with False show ?thesis by (simp add: shl_def)
qed

text \<open>
  Claim C3, as amended. When the route loop ends without an error, the call ends within
  the first pass through the sampling loop, and its outcome is that of this pass with an
  empty conflict set: the loop over the conflict set always falls through. The claim
  says that the outcome is the first candidate or the constructed-CIDR error; there is a
  third outcome. When \<open>32 - cidrBlockSize\<close>, computed on unsigned 64-bit integers, is 64
  or more (a \<open>cidrBlockSize\<close> from 33 to \<open>2^64 - 32\<close>), the stride is 0 and the first pass
  panics on the division \<open>255 / fourthOctetIncrement\<close>. Otherwise the call returns a
  block or one of the two constructed-CIDR errors.
\<close>

theorem first_draw_decides:
  assumes "route_loop routes network [] = Inr cidrBlocks"
  shows "\<exists>res. selectCIDRBlock routes bits network rnd = Some res
           \<and> sampling_body cidrBlocks (shl 1 (32 - bits)) bits (rnd 0) (rnd 1) = Leave res
           \<and> sampling_body [] (shl 1 (32 - bits)) bits (rnd 0) (rnd 1) = Leave res
           \<and> (if 64 \<le> 32 - bits then res = Panic DivideByZero
              else (\<exists>s. res = Ok (Inr s)) \<or> (\<exists>e. res = Ok (Inl (ConstructedCIDRParse e)))
                   \<or> (\<exists>s. res = Ok (Inl (ConstructedCIDRSplit s))))"
proof -
  from sampling_body_Leave[of cidrBlocks "shl 1 (32 - bits)" bits "rnd 0" "rnd 1"]
  obtain res where r: "sampling_body cidrBlocks (shl 1 (32 - bits)) bits (rnd 0) (rnd 1) = Leave res"
    and e: "sampling_body [] (shl 1 (32 - bits)) bits (rnd 0) (rnd 1) = Leave res"
    and c: "if shl 1 (32 - bits) = 0 then res = Panic DivideByZero
        else (\<exists>s. res = Ok (Inr s)) \<or> (\<exists>e. res = Ok (Inl (ConstructedCIDRParse e)))
             \<or> (\<exists>s. res = Ok (Inl (ConstructedCIDRSplit s)))"
    by blast
  have "selectCIDRBlock routes bits network rnd = Some res"
    using assms r by (simp add: selectCIDRBlock_def sampling_loop.simps)
  with r e c show ?thesis by (simp only: shl_one_zero) blast
qed


theorem first_draw_decides_witness:
  "\<exists>res. selectCIDRBlock [\<lparr>Network = ''default'', DestRange = ''10.240.1.0/24''\<rparr>] 29 ''default'' (\<lambda>k. 0)
            = Some res
         \<and> sampling_body [] (shl 1 (32 - 29)) 29 0 0 = Leave res
         \<and> res = Ok (Inr ''10.240.1.0/29'')"
proof -
  have h: "route_loop [\<lparr>Network = ''default'', DestRange = ''10.240.1.0/24''\<rparr>] ''default'' []
             = Inr [\<lparr>IP = [10, 240, 1, 0], Mask = [255, 255, 255, 0]\<rparr>]"
    by code_simp
  have v: "selectCIDRBlock [\<lparr>Network = ''default'', DestRange = ''10.240.1.0/24''\<rparr>] 29 ''default'' (\<lambda>k. 0)
             = Some (Ok (Inr ''10.240.1.0/29''))"
    by code_simp
  from first_draw_decides[OF h, of 29 "\<lambda>k. 0"] v show ?thesis by auto
qed

theorem first_draw_counterexample:
  "route_loop [] ''default'' [] = Inr []
   \<and> selectCIDRBlock [] 33 ''default'' (\<lambda>k. 0) = Some (Panic DivideByZero)"
  by code_simp





section \<open>The sampled block and the conflict set\<close>

text \<open>
  Claim C1 (a returned block never overlaps a retained conflict block) does not hold of
  the program. With the single route 10.240.1.0/24 of the target network, prefix length
  29 and a random source that yields 0 twice, the conflict set is that one block and the
  call returns 10.240.1.0/29, which lies inside it.
\<close>

theorem selectCIDRBlock_returns_overlapping_block:
  "route_loop [\<lparr>Network = ''default'', DestRange = ''10.240.1.0/24''\<rparr>] ''default'' []
     = Inr [\<lparr>IP = [10, 240, 1, 0], Mask = [255, 255, 255, 0]\<rparr>]
   \<and> selectCIDRBlock [\<lparr>Network = ''default'', DestRange = ''10.240.1.0/24''\<rparr>] 29 ''default'' (\<lambda>k. 0)
     = Some (Ok (Inr ''10.240.1.0/29''))
   \<and> ParseCIDR ''10.240.1.0/29''
     = Inr (IPv4 10 240 1 0, \<lparr>IP = [10, 240, 1, 0], Mask = [255, 255, 255, 248]\<rparr>)
   \<and> Contains \<lparr>IP = [10, 240, 1, 0], Mask = [255, 255, 255, 0]\<rparr> [10, 240, 1, 0]"
  by code_simp

theorem overlapping_block_witness:
  "selectCIDRBlock [\<lparr>Network = ''default'', DestRange = ''10.240.1.0/24''\<rparr>] 29 ''default'' (\<lambda>k. 0)
     = Some (Ok (Inr ''10.240.1.0/29''))
   \<and> Contains \<lparr>IP = [10, 240, 1, 0], Mask = [255, 255, 255, 0]\<rparr> [10, 240, 1, 0]"
  using selectCIDRBlock_returns_overlapping_block by blast

end
